theory Spec2Isabelle
  imports Main "HOL-Library.Word" "HOL-Library.Product_Lexorder"
begin

section \<open>The BND binder codec of soulstruct (containers/bnd/core.py)\<close>

text \<open>
  A shallow embedding of \<^verbatim>\<open>BNDEntry\<close>, \<^verbatim>\<open>BaseBND\<close>, \<^verbatim>\<open>BND3\<close> and \<^verbatim>\<open>BND4\<close>.
  Python objects with mutable attributes are records passed in and returned updated; every
  \<^verbatim>\<open>raise\<close> is a value \<open>Inl e\<close> of a sum type, returned together with the
  state the object was left in; logger warnings are returned as a list.  Byte strings are
  lists of 8-bit words, Python strings are lists of code points, Python integers are
  \<open>int\<close> (or \<open>nat\<close> for lengths, indices and sums of non-negative numbers).
\<close>

subsection \<open>Errors, warnings, bytes and strings\<close>

datatype error =
  BNDError | ValueError | TypeError | AttributeError | IndexError | KeyError
  | StructError | ZlibError | UnicodeError

datatype warning =
  DuplicateIdWarning "int option"
  | HashTableOffsetWarning int
  | EntryHeaderSizeWarning int nat

type_synonym byte = "8 word"
type_synonym bytes = "byte list"
type_synonym pystr = "nat list"

definition bind_err :: "error + 'a \<Rightarrow> ('a \<Rightarrow> error + 'b) \<Rightarrow> error + 'b" where
  "bind_err m f = (case m of Inl e \<Rightarrow> Inl e | Inr x \<Rightarrow> f x)"

definition ascii :: "string \<Rightarrow> bytes" where
  "ascii s = map of_char s"

definition str :: "string \<Rightarrow> pystr" where
  "str s = map of_char s"

datatype encoding = Shift_JIS | UTF_16_LE | UTF_16_BE | UTF_8

subsection \<open>The collaborators that core.py imports\<close>

text \<open>
  Modelled from the spec: the modules \<^verbatim>\<open>soulstruct.containers.bnd.magic\<close>,
  \<^verbatim>\<open>zlib\<close>, the text codecs and \<^verbatim>\<open>read_chars_from_buffer\<close> are imported by
  core.py and are not part of it.  The Format Variant Rules are ``pure lookup functions
  keyed by the magic byte'', whose table the spec does not give, so they are parameters:
  every definition below takes a record of them, and every theorem holds for all rules,
  compressors and codecs (under the hypotheses it states).
  \<^verbatim>\<open>zlib_decompress\<close> and the codecs return \<open>None\<close> where Python raises.
  \<^verbatim>\<open>read_chars_from_buffer enc content offset\<close> reads the terminated string at
  \<open>offset\<close> and leaves the position of the buffer as it was.
\<close>

record env =
  has_id :: "int \<Rightarrow> bool"
  has_path :: "int \<Rightarrow> bool"
  has_uncompressed_size :: "int \<Rightarrow> bool"
  is_entry_compressed :: "int \<Rightarrow> bool"
  header_size :: "int \<Rightarrow> int"
  is_big_endian :: "int \<Rightarrow> bool"
  zlib_compress :: "bytes \<Rightarrow> bytes"
  zlib_decompress :: "bytes \<Rightarrow> bytes option"
  str_encode :: "encoding \<Rightarrow> pystr \<Rightarrow> bytes option"
  str_decode :: "encoding \<Rightarrow> bytes \<Rightarrow> pystr option"
  read_chars_from_buffer :: "encoding \<Rightarrow> bytes \<Rightarrow> int \<Rightarrow> error + pystr"

subsection \<open>BinaryStruct\<close>

text \<open>
  Modelled from the spec: \<^verbatim>\<open>BinaryStruct\<close> (soulstruct.utilities.binary-struct) is
  ``a generic fixed-layout binary struct reader/writer primitive (field lists, byte order,
  size computation)''.  A struct is the list of its fields, each with the byte order it was
  added with; a field is a name, a format character of Python's \<^verbatim>\<open>struct\<close> module and
  an optional asserted value, or a run of pad bytes.  Packing takes the asserted value of a
  field that has one and the dictionary's value otherwise, refuses a missing key and a
  number outside the format's range, and writes pad bytes as NUL; unpacking refuses a short
  read and a value that differs from the asserted one.
\<close>

primrec uint_to_bytes_le :: "nat \<Rightarrow> nat \<Rightarrow> bytes" where
  "uint_to_bytes_le 0 v = []"
| "uint_to_bytes_le (Suc n) v = of_nat (v mod 256) # uint_to_bytes_le n (v div 256)"

primrec bytes_le_to_uint :: "bytes \<Rightarrow> nat" where
  "bytes_le_to_uint [] = 0"
| "bytes_le_to_uint (b # bs) = unat b + 256 * bytes_le_to_uint bs"

definition byte_order :: "bool \<Rightarrow> bytes \<Rightarrow> bytes" where
  "byte_order big bs = (if big then rev bs else bs)"

definition pack_int :: "bool \<Rightarrow> nat \<Rightarrow> bool \<Rightarrow> int \<Rightarrow> error + bytes" where
  "pack_int sg n big v =
     (let lo = (if sg then - (2 ^ (8 * n - 1)) else 0);
          hi = (if sg then 2 ^ (8 * n - 1) else 2 ^ (8 * n))
      in if lo \<le> v \<and> v < hi
         then Inr (byte_order big (uint_to_bytes_le n (nat (v mod 2 ^ (8 * n)))))
         else Inl StructError)"

definition unpack_int :: "bool \<Rightarrow> bool \<Rightarrow> bytes \<Rightarrow> int" where
  "unpack_int sg big bs =
     (let u = int (bytes_le_to_uint (byte_order big bs))
      in if sg \<and> 2 ^ (8 * length bs - 1) \<le> u then u - 2 ^ (8 * length bs) else u)"

datatype fmt = Fmt_s nat | Fmt_b | Fmt_B | Fmt_bool | Fmt_i | Fmt_I | Fmt_q

datatype pyval = PyNone | PyBool bool | PyInt int | PyBytes bytes | PyStr pystr

datatype struct_field = Field string fmt "pyval option" | Pad nat

type_synonym binary_struct = "(struct_field \<times> bool) list"
type_synonym pydict = "string \<rightharpoonup> pyval"

fun fmt_size :: "fmt \<Rightarrow> nat" where
  "fmt_size (Fmt_s n) = n"
| "fmt_size Fmt_b = 1"
| "fmt_size Fmt_B = 1"
| "fmt_size Fmt_bool = 1"
| "fmt_size Fmt_i = 4"
| "fmt_size Fmt_I = 4"
| "fmt_size Fmt_q = 8"

definition fmt_signed :: "fmt \<Rightarrow> bool" where
  "fmt_signed f = (case f of Fmt_B \<Rightarrow> False | Fmt_I \<Rightarrow> False | _ \<Rightarrow> True)"

fun field_size :: "struct_field \<Rightarrow> nat" where
  "field_size (Field name f asserted) = fmt_size f"
| "field_size (Pad n) = n"

definition struct_size :: "binary_struct \<Rightarrow> nat" where
  "struct_size s = sum_list (map (\<lambda>(f, big). field_size f) s)"

definition BinaryStruct :: "struct_field list \<Rightarrow> bool \<Rightarrow> binary_struct" where
  "BinaryStruct fs big = map (\<lambda>f. (f, big)) fs"

definition add_fields :: "binary_struct \<Rightarrow> struct_field list \<Rightarrow> bool \<Rightarrow> binary_struct" where
  "add_fields s fs big = s @ map (\<lambda>f. (f, big)) fs"

definition pad_bytes :: "nat \<Rightarrow> bytes \<Rightarrow> bytes" where
  "pad_bytes n bs = take n (bs @ replicate n 0)"

definition truthy :: "pyval \<Rightarrow> bool" where
  "truthy v = (case v of PyNone \<Rightarrow> False | PyBool b \<Rightarrow> b | PyInt i \<Rightarrow> i \<noteq> 0
               | PyBytes bs \<Rightarrow> bs \<noteq> [] | PyStr s \<Rightarrow> s \<noteq> [])"

definition pack_value :: "env \<Rightarrow> fmt \<Rightarrow> bool \<Rightarrow> pyval \<Rightarrow> error + bytes" where
  "pack_value env f big v =
     (case f of
        Fmt_s n \<Rightarrow>
          (case v of
             PyBytes bs \<Rightarrow> Inr (pad_bytes n bs)
           | PyStr s \<Rightarrow>
               (case str_encode env UTF_8 s of
                  None \<Rightarrow> Inl UnicodeError
                | Some bs \<Rightarrow> Inr (pad_bytes n bs))
           | _ \<Rightarrow> Inl StructError)
      | Fmt_bool \<Rightarrow> Inr [if truthy v then 1 else 0]
      | _ \<Rightarrow>
          (case v of
             PyInt i \<Rightarrow> pack_int (fmt_signed f) (fmt_size f) big i
           | PyBool b \<Rightarrow> pack_int (fmt_signed f) (fmt_size f) big (if b then 1 else 0)
           | _ \<Rightarrow> Inl StructError))"

definition unpack_value :: "fmt \<Rightarrow> bool \<Rightarrow> bytes \<Rightarrow> pyval" where
  "unpack_value f big bs =
     (case f of
        Fmt_s n \<Rightarrow> PyBytes bs
      | Fmt_bool \<Rightarrow> PyBool (bs \<noteq> [0])
      | _ \<Rightarrow> PyInt (unpack_int (fmt_signed f) big bs))"

fun struct_pack :: "env \<Rightarrow> binary_struct \<Rightarrow> pydict \<Rightarrow> error + bytes" where
  "struct_pack env [] d = Inr []"
| "struct_pack env ((Pad n, big) # fs) d =
     bind_err (struct_pack env fs d) (\<lambda>rest. Inr (replicate n 0 @ rest))"
| "struct_pack env ((Field name f asserted, big) # fs) d =
     (case (case asserted of Some v \<Rightarrow> Some v | None \<Rightarrow> d name) of
        None \<Rightarrow> Inl KeyError
      | Some v \<Rightarrow>
          bind_err (pack_value env f big v) (\<lambda>b.
          bind_err (struct_pack env fs d) (\<lambda>rest. Inr (b @ rest))))"

fun pack_multiple :: "env \<Rightarrow> binary_struct \<Rightarrow> pydict list \<Rightarrow> error + bytes" where
  "pack_multiple env s [] = Inr []"
| "pack_multiple env s (d # ds) =
     bind_err (struct_pack env s d) (\<lambda>b.
     bind_err (pack_multiple env s ds) (\<lambda>rest. Inr (b @ rest)))"

fun unpack_fields :: "binary_struct \<Rightarrow> bytes \<Rightarrow> error + pydict" where
  "unpack_fields [] bs = Inr Map.empty"
| "unpack_fields ((Pad n, big) # fs) bs = unpack_fields fs (drop n bs)"
| "unpack_fields ((Field name f asserted, big) # fs) bs =
     (let v = unpack_value f big (take (fmt_size f) bs)
      in if asserted \<noteq> None \<and> asserted \<noteq> Some v then Inl ValueError
         else bind_err (unpack_fields fs (drop (fmt_size f) bs)) (\<lambda>d. Inr (d(name \<mapsto> v))))"

subsection \<open>The input buffer\<close>

text \<open>
  A binary stream (\<^verbatim>\<open>io.BytesIO\<close>) is its content and its position.  \<^verbatim>\<open>seek\<close>
  raises on a negative offset; \<^verbatim>\<open>read\<close> returns the bytes there are, all of them when
  the size is negative.
\<close>

record buffer =
  content :: bytes
  pos :: nat

definition seek :: "int \<Rightarrow> buffer \<Rightarrow> error + buffer" where
  "seek offset buf = (if offset < 0 then Inl ValueError else Inr (buf\<lparr>pos := nat offset\<rparr>))"

definition read :: "int \<Rightarrow> buffer \<Rightarrow> bytes \<times> buffer" where
  "read n buf =
     (let avail = drop (pos buf) (content buf);
          got = (if n < 0 then avail else take (nat n) avail)
      in (got, buf\<lparr>pos := pos buf + length got\<rparr>))"

definition struct_unpack :: "binary_struct \<Rightarrow> buffer \<Rightarrow> error + (pydict \<times> buffer)" where
  "struct_unpack s buf =
     (let (raw, buf') = read (int (struct_size s)) buf
      in if length raw \<noteq> struct_size s then Inl StructError
         else bind_err (unpack_fields s raw) (\<lambda>d. Inr (d, buf')))"

fun unpack_count :: "binary_struct \<Rightarrow> buffer \<Rightarrow> nat \<Rightarrow> error + (pydict list \<times> buffer)" where
  "unpack_count s buf 0 = Inr ([], buf)"
| "unpack_count s buf (Suc n) =
     bind_err (struct_unpack s buf) (\<lambda>(d, buf').
     bind_err (unpack_count s buf' n) (\<lambda>(ds, buf''). Inr (d # ds, buf'')))"

text \<open>Reading a value of a dictionary: a missing key and a value of the wrong type raise.\<close>

definition get_int :: "pydict \<Rightarrow> string \<Rightarrow> error + int" where
  "get_int d k =
     (case d k of
        None \<Rightarrow> Inl KeyError
      | Some (PyInt i) \<Rightarrow> Inr i
      | Some (PyBool b) \<Rightarrow> Inr (if b then 1 else 0)
      | Some v \<Rightarrow> Inl TypeError)"

definition get_bytes :: "pydict \<Rightarrow> string \<Rightarrow> error + bytes" where
  "get_bytes d k =
     (case d k of None \<Rightarrow> Inl KeyError | Some (PyBytes bs) \<Rightarrow> Inr bs | Some v \<Rightarrow> Inl TypeError)"

definition get_truth :: "pydict \<Rightarrow> string \<Rightarrow> error + bool" where
  "get_truth d k = (case d k of None \<Rightarrow> Inl KeyError | Some v \<Rightarrow> Inr (truthy v))"

subsection \<open>Entries and the archive\<close>

text \<open>
  \<^verbatim>\<open>BNDEntry\<close> has the attributes data, id, path and magic; id and path default to
  \<open>None\<close>.  \<^verbatim>\<open>BaseBND.__init__\<close> sets the attributes of \<open>base_bnd\<close>, and
  \<^verbatim>\<open>BND3\<close> and \<^verbatim>\<open>BND4\<close> add theirs.  \<^verbatim>\<open>entry_header_struct\<close> is an attribute
  only once \<^verbatim>\<open>unpack\<close> or \<^verbatim>\<open>create_header_structs\<close> has set it.
\<close>

record bnd_entry =
  entry_data :: bytes
  entry_id :: "int option"
  entry_path :: "pystr option"
  entry_magic :: int

record base_bnd =
  signature :: pystr
  magic :: int
  big_endian :: bool
  most_recent_hash_table :: bytes
  most_recent_entry_count :: nat
  most_recent_paths :: "pystr option list"
  header_struct :: "binary_struct option"
  entry_header_struct :: "binary_struct option"
  entries :: "bnd_entry list"

record bnd3 = base_bnd +
  unknown :: bool

record bnd4 = base_bnd +
  flag1 :: bool
  flag2 :: bool
  utf16_paths :: bool
  hash_table_type :: int
  hash_table_offset :: int

definition new_base_bnd :: base_bnd where
  "new_base_bnd =
     \<lparr>signature = [], magic = -1, big_endian = False, most_recent_hash_table = [],
      most_recent_entry_count = 0, most_recent_paths = [], header_struct = None,
      entry_header_struct = None, entries = []\<rparr>"

definition new_bnd3 :: bnd3 where
  "new_bnd3 = base_bnd.extend new_base_bnd (bnd3.fields False)"

definition new_bnd4 :: bnd4 where
  "new_bnd4 = base_bnd.extend new_base_bnd (bnd4.fields False False False 0 0)"

text \<open>\<^verbatim>\<open>BNDEntry.get_data_for_pack\<close>, \<^verbatim>\<open>data_size\<close> and \<^verbatim>\<open>get_packed_path\<close>;
  a path that is \<open>None\<close> has no \<^verbatim>\<open>encode\<close>.\<close>

definition get_data_for_pack :: "env \<Rightarrow> bnd_entry \<Rightarrow> bytes \<times> bool" where
  "get_data_for_pack env e =
     (if is_entry_compressed env (entry_magic e) then (zlib_compress env (entry_data e), True)
      else (entry_data e, False))"

definition data_size :: "bnd_entry \<Rightarrow> nat" where
  "data_size e = length (entry_data e)"

definition get_packed_path :: "env \<Rightarrow> bnd_entry \<Rightarrow> encoding \<Rightarrow> error + bytes" where
  "get_packed_path env e enc =
     (case entry_path e of
        None \<Rightarrow> Inl AttributeError
      | Some p \<Rightarrow> (case str_encode env enc p of None \<Rightarrow> Inl UnicodeError | Some bs \<Rightarrow> Inr (bs @ [0])))"

text \<open>\<^verbatim>\<open>BaseBND.entries_by_id\<close> (the loop over \<^verbatim>\<open>self._entries\<close> that raises at the
  second entry of one ID) and \<^verbatim>\<open>BaseBND.add_entry\<close>.  \<^verbatim>\<open>entry in self._entries\<close> is
  equality on (id, path, magic, data), which is equality of the record.\<close>

fun entries_by_id_loop :: "(int option \<rightharpoonup> bnd_entry) \<Rightarrow> bnd_entry list \<Rightarrow> error + (int option \<rightharpoonup> bnd_entry)" where
  "entries_by_id_loop d [] = Inr d"
| "entries_by_id_loop d (e # es) =
     (if d (entry_id e) \<noteq> None then Inl BNDError
      else entries_by_id_loop (d(entry_id e \<mapsto> e)) es)"

definition entries_by_id :: "'a base_bnd_scheme \<Rightarrow> error + (int option \<rightharpoonup> bnd_entry)" where
  "entries_by_id self = entries_by_id_loop Map.empty (entries self)"

definition add_entry ::
  "bnd_entry \<Rightarrow> 'a base_bnd_scheme \<Rightarrow> (error + warning list) \<times> 'a base_bnd_scheme" where
  "add_entry e self =
     (if e \<in> set (entries self) then (Inl BNDError, self)
      else case entries_by_id self of
             Inl err \<Rightarrow> (Inl err, self)
           | Inr by_id \<Rightarrow>
               (Inr (if by_id (entry_id e) \<noteq> None then [DuplicateIdWarning (entry_id e)] else []),
                self\<lparr>entries := entries self @ [e]\<rparr>))"

fun add_entries ::
  "bnd_entry list \<Rightarrow> 'a base_bnd_scheme \<Rightarrow> (error + warning list) \<times> 'a base_bnd_scheme" where
  "add_entries [] self = (Inr [], self)"
| "add_entries (e # es) self =
     (case add_entry e self of
        (Inl err, self') \<Rightarrow> (Inl err, self')
      | (Inr ws, self') \<Rightarrow>
          (case add_entries es self' of
             (Inl err, self'') \<Rightarrow> (Inl err, self'')
           | (Inr ws', self'') \<Rightarrow> (Inr (ws @ ws'), self'')))"

text \<open>\<^verbatim>\<open>BNDEntry.unpack\<close>: the entry headers are read first, then each entry's path and
  data; the list is complete before the caller sees any entry.\<close>

definition unpack_entry :: "env \<Rightarrow> buffer \<Rightarrow> encoding \<Rightarrow> pydict \<Rightarrow> error + (bnd_entry \<times> buffer)" where
  "unpack_entry env bnd_buffer path_encoding d =
     bind_err (get_int d ''data_offset'') (\<lambda>data_offset.
     bind_err (seek data_offset bnd_buffer) (\<lambda>buf1.
     bind_err (case d ''path_offset'' of
                 None \<Rightarrow> Inr None
               | Some v \<Rightarrow>
                   bind_err (get_int d ''path_offset'') (\<lambda>path_offset.
                   bind_err (read_chars_from_buffer env path_encoding (content buf1) path_offset)
                     (\<lambda>p. Inr (Some p)))) (\<lambda>path.
     bind_err (get_int d ''compressed_data_size'') (\<lambda>compressed_data_size.
     bind_err (get_int d ''entry_magic'') (\<lambda>entry_magic.
     (let (raw, buf2) = read compressed_data_size buf1
      in bind_err (if is_entry_compressed env entry_magic
                   then (case zlib_decompress env raw of None \<Rightarrow> Inl ZlibError | Some x \<Rightarrow> Inr x)
                   else Inr raw) (\<lambda>data.
         bind_err (case d ''entry_id'' of
                     None \<Rightarrow> Inr None
                   | Some v \<Rightarrow> bind_err (get_int d ''entry_id'') (\<lambda>i. Inr (Some i))) (\<lambda>eid.
         Inr (\<lparr>entry_data = data, entry_id = eid, entry_path = path, entry_magic = entry_magic\<rparr>,
              buf2)))))))))"

fun unpack_entries :: "env \<Rightarrow> buffer \<Rightarrow> encoding \<Rightarrow> pydict list \<Rightarrow> error + bnd_entry list" where
  "unpack_entries env bnd_buffer path_encoding [] = Inr []"
| "unpack_entries env bnd_buffer path_encoding (d # ds) =
     bind_err (unpack_entry env bnd_buffer path_encoding d) (\<lambda>(e, buf').
     bind_err (unpack_entries env buf' path_encoding ds) (\<lambda>es. Inr (e # es)))"

definition BNDEntry_unpack ::
  "env \<Rightarrow> buffer \<Rightarrow> binary_struct \<Rightarrow> encoding \<Rightarrow> int \<Rightarrow> error + bnd_entry list" where
  "BNDEntry_unpack env bnd_buffer ehs path_encoding count =
     bind_err (unpack_count ehs bnd_buffer (nat count)) (\<lambda>(entry_header_dicts, buf').
     unpack_entries env buf' path_encoding entry_header_dicts)"

subsection \<open>BND3\<close>

text \<open>The field lists of \<^verbatim>\<open>BND3\<close>, in the order the class declares them.\<close>

definition BND3_HEADER_STRUCT_START :: "struct_field list" where
  "BND3_HEADER_STRUCT_START =
     [Field ''version'' (Fmt_s 4) (Some (PyBytes (ascii ''BND3''))),
      Field ''signature'' (Fmt_s 8) None,
      Field ''magic'' Fmt_b None,
      Field ''big_endian'' Fmt_bool None]"

definition BND3_HEADER_STRUCT_ENDIAN :: "struct_field list" where
  "BND3_HEADER_STRUCT_ENDIAN =
     [Field ''unknown'' Fmt_bool None,
      Field ''zero'' Fmt_B (Some (PyInt 0)),
      Field ''entry_count'' Fmt_i None,
      Field ''file_size'' Fmt_i None,
      Pad 8]"

definition BND3_BND_ENTRY_HEADER :: "struct_field list" where
  "BND3_BND_ENTRY_HEADER =
     [Field ''entry_magic'' Fmt_B None,
      Pad 3,
      Field ''compressed_data_size'' Fmt_i None,
      Field ''data_offset'' Fmt_i None]"

definition BND3_ENTRY_ID :: struct_field where
  "BND3_ENTRY_ID = Field ''entry_id'' Fmt_i None"

definition BND3_NAME_OFFSET :: struct_field where
  "BND3_NAME_OFFSET = Field ''path_offset'' Fmt_i None"

definition BND3_UNCOMPRESSED_DATA_SIZE :: struct_field where
  "BND3_UNCOMPRESSED_DATA_SIZE = Field ''uncompressed_data_size'' Fmt_i None"

definition BND3_entry_header_struct :: "env \<Rightarrow> int \<Rightarrow> bool \<Rightarrow> binary_struct" where
  "BND3_entry_header_struct env m big =
     (let s = BinaryStruct BND3_BND_ENTRY_HEADER big;
          s = (if has_id env m then add_fields s [BND3_ENTRY_ID] big else s);
          s = (if has_path env m then add_fields s [BND3_NAME_OFFSET] big else s);
          s = (if has_uncompressed_size env m then add_fields s [BND3_UNCOMPRESSED_DATA_SIZE] big else s)
      in s)"

definition check_version :: "env \<Rightarrow> string \<Rightarrow> bytes \<Rightarrow> error + unit" where
  "check_version env VERSION raw =
     (case str_decode env UTF_8 raw of
        None \<Rightarrow> Inl UnicodeError
      | Some version \<Rightarrow> if version \<noteq> str VERSION then Inl BNDError else Inr ())"

definition rstrip_nul :: "bytes \<Rightarrow> bytes" where
  "rstrip_nul bs = rev (dropWhile (\<lambda>b. b = 0) (rev bs))"

definition decode_signature :: "env \<Rightarrow> bytes \<Rightarrow> error + pystr" where
  "decode_signature env raw =
     (case str_decode env UTF_8 (rstrip_nul raw) of None \<Rightarrow> Inl UnicodeError | Some s \<Rightarrow> Inr s)"

text \<open>\<^verbatim>\<open>BND3.unpack\<close>, up to and including the call of \<^verbatim>\<open>BNDEntry.unpack\<close>; the
  archive is returned as the assignments made before an error left it.  Then the loop
  \<^verbatim>\<open>for entry in ...: self.add_entry(entry)\<close>.\<close>

definition BND3_unpack_read :: "env \<Rightarrow> buffer \<Rightarrow> bnd3 \<Rightarrow> (error + bnd_entry list) \<times> bnd3" where
  "BND3_unpack_read env buffer self0 =
     (let hs = BinaryStruct BND3_HEADER_STRUCT_START False;
          self1 = self0\<lparr>header_struct := Some hs\<rparr>
      in case struct_unpack hs buffer of
           Inl e \<Rightarrow> (Inl e, self1)
         | Inr (header, buf1) \<Rightarrow>
      (case bind_err (get_bytes header ''version'') (check_version env ''BND3'') of
           Inl e \<Rightarrow> (Inl e, self1)
         | Inr u \<Rightarrow>
      (case bind_err (get_bytes header ''signature'') (decode_signature env) of
           Inl e \<Rightarrow> (Inl e, self1)
         | Inr sig \<Rightarrow>
      (let self2 = self1\<lparr>signature := sig\<rparr>
       in case get_int header ''magic'' of
           Inl e \<Rightarrow> (Inl e, self2)
         | Inr m \<Rightarrow>
      (let self3 = self2\<lparr>magic := m\<rparr>
       in case get_truth header ''big_endian'' of
           Inl e \<Rightarrow> (Inl e, self3)
         | Inr be \<Rightarrow>
      (let big = (be \<or> is_big_endian env m);
           self4 = self3\<lparr>big_endian := big\<rparr>;
           endian = BinaryStruct BND3_HEADER_STRUCT_ENDIAN big;
           self5 = self4\<lparr>header_struct := Some (add_fields hs BND3_HEADER_STRUCT_ENDIAN big)\<rparr>
       in case struct_unpack endian buf1 of
           Inl e \<Rightarrow> (Inl e, self5)
         | Inr (header2, buf2) \<Rightarrow>
      (case get_truth header2 ''unknown'' of
           Inl e \<Rightarrow> (Inl e, self5)
         | Inr unk \<Rightarrow>
      (let ehs = BND3_entry_header_struct env m big;
           self6 = self5\<lparr>unknown := unk, entry_header_struct := Some ehs\<rparr>
       in case bind_err (get_int header2 ''entry_count'')
                 (BNDEntry_unpack env buf2 ehs Shift_JIS) of
           Inl e \<Rightarrow> (Inl e, self6)
         | Inr es \<Rightarrow> (Inr es, self6)))))))))"

definition BND3_unpack :: "env \<Rightarrow> buffer \<Rightarrow> bnd3 \<Rightarrow> (error + warning list) \<times> bnd3" where
  "BND3_unpack env buffer self =
     (case BND3_unpack_read env buffer self of
        (Inl e, self') \<Rightarrow> (Inl e, self')
      | (Inr es, self') \<Rightarrow> add_entries es self')"

text \<open>\<^verbatim>\<open>BND3.create_header_structs\<close>.\<close>

definition BND3_create_header_structs :: "env \<Rightarrow> bnd3 \<Rightarrow> bnd3" where
  "BND3_create_header_structs env self =
     (let hs = BinaryStruct BND3_HEADER_STRUCT_START False;
          big = big_endian self;
          hs = add_fields hs BND3_HEADER_STRUCT_ENDIAN big
      in self\<lparr>header_struct := Some hs,
              entry_header_struct := Some (BND3_entry_header_struct env (magic self) big)\<rparr>)"

text \<open>The local variables of the first loop of \<^verbatim>\<open>pack\<close> (the loops of \<^verbatim>\<open>BND3.pack\<close> and
  \<^verbatim>\<open>BND4.pack\<close> differ in the ten pad bytes only).\<close>

record pack_state =
  entry_header_dicts :: "pydict list"
  packed_entry_paths :: bytes
  relative_entry_path_offsets :: "nat list"
  packed_entry_data :: bytes
  relative_entry_data_offsets :: "nat list"

definition pack_state_init :: pack_state where
  "pack_state_init =
     \<lparr>entry_header_dicts = [], packed_entry_paths = [], relative_entry_path_offsets = [],
      packed_entry_data = [], relative_entry_data_offsets = []\<rparr>"

definition py_id :: "int option \<Rightarrow> pyval" where
  "py_id i = (case i of None \<Rightarrow> PyNone | Some n \<Rightarrow> PyInt n)"

text \<open>One iteration of the loop over the entries; pad is the number of NUL bytes put
  before the entry's data (0 in BND3.pack, 10 in BND4.pack).\<close>

definition pack_entry ::
  "env \<Rightarrow> int \<Rightarrow> encoding \<Rightarrow> nat \<Rightarrow> pack_state \<Rightarrow> bnd_entry \<Rightarrow> error + pack_state" where
  "pack_entry env m enc pad st e =
     (let data0 = packed_entry_data st @ replicate pad 0;
          d = [''entry_magic'' \<mapsto> PyInt (entry_magic e),
               ''compressed_data_size'' \<mapsto> PyInt (int (data_size e)),
               ''data_offset'' \<mapsto> PyInt (int (length data0))];
          d = (if has_id env m then d(''entry_id'' \<mapsto> py_id (entry_id e)) else d)
      in bind_err
           (if has_path env m
            then bind_err (get_packed_path env e enc) (\<lambda>pp.
                   Inr (d(''path_offset'' \<mapsto> PyInt (int (length (packed_entry_paths st)))),
                        relative_entry_path_offsets st @ [length (packed_entry_paths st)],
                        packed_entry_paths st @ pp))
            else Inr (d, relative_entry_path_offsets st, packed_entry_paths st))
           (\<lambda>(d, rel_paths, paths).
             (let d = (if has_uncompressed_size env m
                       then d(''uncompressed_data_size'' \<mapsto> PyInt (int (data_size e))) else d);
                  rel_data = relative_entry_data_offsets st @ [length data0];
                  (edata, is_compressed) = get_data_for_pack env e;
                  d = (if is_compressed
                       then d(''compressed_data_size'' \<mapsto> PyInt (int (length edata))) else d)
              in Inr \<lparr>entry_header_dicts = entry_header_dicts st @ [d],
                      packed_entry_paths = paths,
                      relative_entry_path_offsets = rel_paths,
                      packed_entry_data = data0 @ edata,
                      relative_entry_data_offsets = rel_data\<rparr>)))"

fun pack_entries ::
  "env \<Rightarrow> int \<Rightarrow> encoding \<Rightarrow> nat \<Rightarrow> pack_state \<Rightarrow> bnd_entry list \<Rightarrow> error + pack_state" where
  "pack_entries env m enc pad st [] = Inr st"
| "pack_entries env m enc pad st (e # es) =
     bind_err (pack_entry env m enc pad st e) (\<lambda>st'. pack_entries env m enc pad st' es)"

text \<open>The last loop of \<^verbatim>\<open>pack\<close>: offsets made absolute, entry headers packed.\<close>

definition add_int :: "pydict \<Rightarrow> string \<Rightarrow> int \<Rightarrow> error + pydict" where
  "add_int d k n = bind_err (get_int d k) (\<lambda>v. Inr (d(k \<mapsto> PyInt (v + n))))"

fun pack_entry_headers ::
  "env \<Rightarrow> int \<Rightarrow> binary_struct \<Rightarrow> int \<Rightarrow> int \<Rightarrow> pydict list \<Rightarrow> error + bytes" where
  "pack_entry_headers env m ehs data_off path_off [] = Inr []"
| "pack_entry_headers env m ehs data_off path_off (d # ds) =
     bind_err (add_int d ''data_offset'' data_off) (\<lambda>d.
     bind_err (if has_path env m then add_int d ''path_offset'' path_off else Inr d) (\<lambda>d.
     bind_err (struct_pack env ehs d) (\<lambda>b.
     bind_err (pack_entry_headers env m ehs data_off path_off ds) (\<lambda>rest. Inr (b @ rest)))))"

text \<open>\<^verbatim>\<open>sorted(self._entries, key=lambda e: e.id)\<close>: a stable sort; comparing \<open>None\<close> with
  anything raises, and a list of two or more entries is compared.\<close>

definition entry_id_key :: "bnd_entry \<Rightarrow> int" where
  "entry_id_key e = (case entry_id e of None \<Rightarrow> 0 | Some i \<Rightarrow> i)"

definition sorted_by_id :: "bnd_entry list \<Rightarrow> error + bnd_entry list" where
  "sorted_by_id es =
     (if 2 \<le> length es \<and> None \<in> set (map entry_id es) then Inl TypeError
      else Inr (sort_key entry_id_key es))"

text \<open>\<^verbatim>\<open>BND3.pack\<close>.  The parts of the returned byte string are kept apart in a record, and
  \<open>join_parts\<close> is the concatenation that \<^verbatim>\<open>pack\<close> returns.\<close>

record packed_parts =
  packed_header :: bytes
  packed_entry_headers :: bytes
  packed_paths :: bytes
  packed_hash_table :: bytes
  packed_data :: bytes

definition join_parts :: "packed_parts \<Rightarrow> bytes" where
  "join_parts p =
     packed_header p @ packed_entry_headers p @ packed_paths p @ packed_hash_table p @ packed_data p"

definition BND3_pack_parts :: "env \<Rightarrow> bnd3 \<Rightarrow> error + packed_parts" where
  "BND3_pack_parts env self =
     bind_err (sorted_by_id (entries self)) (\<lambda>sorted_entries.
     bind_err (pack_entries env (magic self) Shift_JIS 0 pack_state_init sorted_entries) (\<lambda>st.
     (case header_struct self of None \<Rightarrow> Inl AttributeError | Some hs \<Rightarrow>
     (case entry_header_struct self of None \<Rightarrow> Inl AttributeError | Some ehs \<Rightarrow>
     (let entry_header_table_offset = struct_size hs;
          entry_path_table_offset =
            entry_header_table_offset + struct_size ehs * length (entries self);
          entry_packed_data_offset = entry_path_table_offset + length (packed_entry_paths st);
          bnd_file_size = entry_packed_data_offset + length (packed_entry_data st)
      in bind_err (struct_pack env hs
                     [''signature'' \<mapsto> PyStr (signature self),
                      ''magic'' \<mapsto> PyInt (magic self),
                      ''big_endian'' \<mapsto> PyBool (big_endian self),
                      ''unknown'' \<mapsto> PyBool (unknown self),
                      ''entry_count'' \<mapsto> PyInt (int (length (entries self))),
                      ''file_size'' \<mapsto> PyInt (int bnd_file_size)]) (\<lambda>hdr.
         bind_err (pack_entry_headers env (magic self) ehs (int entry_packed_data_offset)
                     (int entry_path_table_offset) (entry_header_dicts st)) (\<lambda>ehdrs.
         Inr \<lparr>packed_header = hdr, packed_entry_headers = ehdrs,
                packed_paths = packed_entry_paths st, packed_hash_table = [],
                packed_data = packed_entry_data st\<rparr>)))))))"

definition BND3_pack :: "env \<Rightarrow> bnd3 \<Rightarrow> (error + bytes) \<times> bnd3" where
  "BND3_pack env self =
     (case BND3_pack_parts env self of Inl e \<Rightarrow> (Inl e, self) | Inr p \<Rightarrow> (Inr (join_parts p), self))"

subsection \<open>Path hash and group count of the BND4 hash table\<close>

text \<open>\<^verbatim>\<open>BND4.path_hash\<close>; \<open>normalized_path\<close> is the normal form in the words of the
  specification (separators replaced, one leading slash ensured).  \<^verbatim>\<open>BND4.is_prime\<close> with its
  loop over \<^verbatim>\<open>range(3, p // 2, 2)\<close>, and the search \<^verbatim>\<open>for p in range(len // 7, 100000)\<close> of
  \<^verbatim>\<open>build_hash_table\<close>, whose \<^verbatim>\<open>else\<close> raises; \<open>prime_number\<close> is primality as
  usually defined.  The arguments are lengths and range values, so they are naturals.\<close>

definition slash :: nat where "slash = 47"
definition backslash :: nat where "backslash = 92"

definition str_replace :: "nat \<Rightarrow> nat \<Rightarrow> pystr \<Rightarrow> pystr" where
  "str_replace old new s = map (\<lambda>c. if c = old then new else c) s"

definition startswith :: "pystr \<Rightarrow> nat \<Rightarrow> bool" where
  "startswith s c = (case s of [] \<Rightarrow> False | x # _ \<Rightarrow> x = c)"

fun path_hash_loop :: "nat \<Rightarrow> nat \<Rightarrow> pystr \<Rightarrow> nat" where
  "path_hash_loop h i [] = h"
| "path_hash_loop h i (s # rest) = path_hash_loop (h + (i * 37 + s)) (i + 1) rest"

definition path_hash :: "pystr \<Rightarrow> nat" where
  "path_hash path_string =
     (let hashable = str_replace backslash slash path_string;
          hashable = (if \<not> startswith hashable slash then slash # hashable else hashable)
      in path_hash_loop 0 0 hashable)"

definition normalized_path :: "pystr \<Rightarrow> pystr" where
  "normalized_path p =
     (let q = map (\<lambda>c. if c = backslash then slash else c) p
      in if q \<noteq> [] \<and> hd q = slash then q else slash # q)"

function is_prime_loop :: "nat \<Rightarrow> nat \<Rightarrow> bool" where
  "is_prime_loop i p =
     (if i < p div 2
      then (if p mod i = 0 then False
            else if i ^ 2 > p then True
            else is_prime_loop (i + 2) p)
      else True)"
  by pat_completeness auto
termination
  by (relation "measure (\<lambda>(i, p). p div 2 - i)") auto

definition is_prime :: "nat \<Rightarrow> bool" where
  "is_prime p =
     (if p < 2 then False
      else if p = 2 then True
      else if p mod 2 = 0 then False
      else is_prime_loop 3 p)"

function group_count_loop :: "nat \<Rightarrow> error + nat" where
  "group_count_loop p =
     (if p < 100000
      then (if is_prime p then Inr p else group_count_loop (p + 1))
      else Inl ValueError)"
  by pat_completeness auto
termination
  by (relation "measure (\<lambda>p. 100000 - p)") auto

definition find_group_count :: "nat \<Rightarrow> error + nat" where
  "find_group_count n = group_count_loop (n div 7)"

definition prime_number :: "nat \<Rightarrow> bool" where
  "prime_number p = (2 \<le> p \<and> (\<forall>d. d dvd p \<longrightarrow> d = 1 \<or> d = p))"

subsection \<open>BND4\<close>

text \<open>The field lists of \<^verbatim>\<open>BND4\<close>.  Modelled from the spec: the three hash table structs
  are built with the default byte order of \<^verbatim>\<open>BinaryStruct\<close>, taken to be little-endian.\<close>

definition BND4_HEADER_STRUCT_START :: "struct_field list" where
  "BND4_HEADER_STRUCT_START =
     [Field ''version'' (Fmt_s 4) (Some (PyBytes (ascii ''BND4''))),
      Field ''flag1'' Fmt_bool None,
      Field ''flag2'' Fmt_bool None,
      Pad 2,
      Field ''big_endian'' Fmt_i None]"

definition BND4_HEADER_STRUCT_ENDIAN :: "struct_field list" where
  "BND4_HEADER_STRUCT_ENDIAN =
     [Field ''entry_count'' Fmt_i None,
      Field ''header_size'' Fmt_q (Some (PyInt 64)),
      Field ''signature'' (Fmt_s 8) None,
      Field ''entry_header_size'' Fmt_q None,
      Field ''data_offset'' Fmt_q None,
      Field ''utf16_paths'' Fmt_bool None,
      Field ''magic'' Fmt_b None,
      Field ''hash_table_type'' Fmt_B None,
      Pad 5,
      Field ''hash_table_offset'' Fmt_q None]"

definition BND4_BND_ENTRY_HEADER :: "struct_field list" where
  "BND4_BND_ENTRY_HEADER =
     [Field ''entry_magic'' Fmt_B None,
      Pad 3,
      Field ''minus_one'' Fmt_i (Some (PyInt (-1))),
      Field ''compressed_data_size'' Fmt_q None]"

definition BND4_UNCOMPRESSED_DATA_SIZE :: struct_field where
  "BND4_UNCOMPRESSED_DATA_SIZE = Field ''uncompressed_data_size'' Fmt_q None"

definition BND4_DATA_OFFSET :: struct_field where
  "BND4_DATA_OFFSET = Field ''data_offset'' Fmt_I None"

definition BND4_ENTRY_ID :: struct_field where
  "BND4_ENTRY_ID = Field ''entry_id'' Fmt_i None"

definition BND4_NAME_OFFSET :: struct_field where
  "BND4_NAME_OFFSET = Field ''path_offset'' Fmt_i None"

definition HASH_TABLE_HEADER :: binary_struct where
  "HASH_TABLE_HEADER =
     BinaryStruct
       [Pad 8,
        Field ''path_hashes_offset'' Fmt_q None,
        Field ''hash_group_count'' Fmt_I None,
        Field ''unknown'' Fmt_i (Some (PyInt 0x00080810))] False"

definition PATH_HASH_STRUCT :: binary_struct where
  "PATH_HASH_STRUCT =
     BinaryStruct [Field ''hashed_value'' Fmt_I None, Field ''entry_index'' Fmt_i None] False"

definition HASH_GROUP_STRUCT :: binary_struct where
  "HASH_GROUP_STRUCT =
     BinaryStruct [Field ''length'' Fmt_i None, Field ''index'' Fmt_i None] False"

definition BND4_entry_header_struct :: "env \<Rightarrow> int \<Rightarrow> bool \<Rightarrow> binary_struct" where
  "BND4_entry_header_struct env m big =
     (let s = BinaryStruct BND4_BND_ENTRY_HEADER big;
          s = (if has_uncompressed_size env m then add_fields s [BND4_UNCOMPRESSED_DATA_SIZE] big else s);
          s = add_fields s [BND4_DATA_OFFSET] big;
          s = (if has_id env m then add_fields s [BND4_ENTRY_ID] big else s);
          s = (if has_path env m then add_fields s [BND4_NAME_OFFSET] big else s);
          s = (if m = 0x20 then add_fields s [Pad 8] False else s)
      in s)"

definition BND4_path_encoding :: "bool \<Rightarrow> bool \<Rightarrow> encoding" where
  "BND4_path_encoding big utf16 =
     (if utf16 then (if big then UTF_16_BE else UTF_16_LE) else Shift_JIS)"

text \<open>\<^verbatim>\<open>BND4.unpack\<close> up to and including the call of \<^verbatim>\<open>BNDEntry.unpack\<close>.  The result
  holds the parsed entries, the warnings logged so far and the header's data offset.  Then
  the loop over \<^verbatim>\<open>add_entry\<close> and the caching of the hash table bytes.\<close>

definition BND4_unpack_read ::
  "env \<Rightarrow> buffer \<Rightarrow> bnd4 \<Rightarrow> (error + (bnd_entry list \<times> warning list \<times> int)) \<times> bnd4" where
  "BND4_unpack_read env bnd_buffer self0 =
     (let hs = BinaryStruct BND4_HEADER_STRUCT_START False;
          self1 = self0\<lparr>header_struct := Some hs\<rparr>
      in case struct_unpack hs bnd_buffer of
           Inl e \<Rightarrow> (Inl e, self1)
         | Inr (header, buf1) \<Rightarrow>
      (case bind_err (get_bytes header ''version'') (check_version env ''BND4'') of
           Inl e \<Rightarrow> (Inl e, self1)
         | Inr u \<Rightarrow>
      (case get_truth header ''flag1'' of Inl e \<Rightarrow> (Inl e, self1) | Inr f1 \<Rightarrow>
      (case get_truth header ''flag2'' of Inl e \<Rightarrow> (Inl e, self1\<lparr>flag1 := f1\<rparr>) | Inr f2 \<Rightarrow>
      (let self2 = self1\<lparr>flag1 := f1, flag2 := f2\<rparr>
       in case get_int header ''big_endian'' of Inl e \<Rightarrow> (Inl e, self2) | Inr be \<Rightarrow>
      (let big = (be = 0x00000100);
           self3 = self2\<lparr>big_endian := big\<rparr>;
           endian = BinaryStruct BND4_HEADER_STRUCT_ENDIAN big;
           self4 = self3\<lparr>header_struct := Some (add_fields hs BND4_HEADER_STRUCT_ENDIAN big)\<rparr>
       in case struct_unpack endian buf1 of
           Inl e \<Rightarrow> (Inl e, self4)
         | Inr (header2, buf2) \<Rightarrow>
      (case bind_err (get_bytes header2 ''signature'') (decode_signature env) of
           Inl e \<Rightarrow> (Inl e, self4)
         | Inr sig \<Rightarrow>
      (let self5 = self4\<lparr>signature := sig\<rparr>
       in case get_int header2 ''magic'' of Inl e \<Rightarrow> (Inl e, self5) | Inr m \<Rightarrow>
      (let self6 = self5\<lparr>magic := m\<rparr>
       in case get_truth header2 ''utf16_paths'' of Inl e \<Rightarrow> (Inl e, self6) | Inr u16 \<Rightarrow>
      (let self7 = self6\<lparr>utf16_paths := u16\<rparr>
       in case get_int header2 ''hash_table_type'' of Inl e \<Rightarrow> (Inl e, self7) | Inr htt \<Rightarrow>
      (let self8 = self7\<lparr>hash_table_type := htt\<rparr>
       in case get_int header2 ''hash_table_offset'' of Inl e \<Rightarrow> (Inl e, self8) | Inr hto \<Rightarrow>
      (let self9 = self8\<lparr>hash_table_offset := hto\<rparr>;
           path_encoding = BND4_path_encoding big u16
       in case get_int header2 ''entry_header_size'' of Inl e \<Rightarrow> (Inl e, self9) | Inr ehsize \<Rightarrow>
      (if ehsize \<noteq> header_size env m then (Inl ValueError, self9)
       else
      (let ws1 = (if htt \<noteq> 4 \<and> hto \<noteq> 0 then [HashTableOffsetWarning hto] else []);
           ehs = BND4_entry_header_struct env m big;
           self10 = self9\<lparr>entry_header_struct := Some ehs\<rparr>;
           ws2 = (if ehsize \<noteq> int (struct_size ehs)
                  then [EntryHeaderSizeWarning ehsize (struct_size ehs)] else [])
       in case bind_err (get_int header2 ''entry_count'')
                 (BNDEntry_unpack env buf2 ehs path_encoding) of
            Inl e \<Rightarrow> (Inl e, self10)
          | Inr es \<Rightarrow>
              (case get_int header2 ''data_offset'' of
                 Inl e \<Rightarrow> (Inl e, self10)
               | Inr data_offset \<Rightarrow> (Inr (es, ws1 @ ws2, data_offset), self10))))))))))))))))"

definition BND4_unpack :: "env \<Rightarrow> buffer \<Rightarrow> bnd4 \<Rightarrow> (error + warning list) \<times> bnd4" where
  "BND4_unpack env bnd_buffer self =
     (case BND4_unpack_read env bnd_buffer self of
        (Inl e, self') \<Rightarrow> (Inl e, self')
      | (Inr (es, ws, data_offset), self') \<Rightarrow>
          (case add_entries es self' of
             (Inl e, self'') \<Rightarrow> (Inl e, self'')
           | (Inr ws', self'') \<Rightarrow>
               (case (if hash_table_type self'' = 4
                      then bind_err (seek (hash_table_offset self'') bnd_buffer) (\<lambda>buf.
                             Inr (self''\<lparr>most_recent_hash_table :=
                                    fst (read (data_offset - hash_table_offset self'') buf)\<rparr>))
                      else Inr self'') of
                  Inl e \<Rightarrow> (Inl e, self'')
                | Inr self3 \<Rightarrow>
                    (Inr (ws @ ws'),
                     self3\<lparr>most_recent_entry_count := length (entries self3),
                            most_recent_paths := map entry_path (entries self3)\<rparr>))))"

text \<open>\<^verbatim>\<open>BND4.create_header_structs\<close>.\<close>

definition BND4_create_header_structs :: "env \<Rightarrow> bnd4 \<Rightarrow> bnd4" where
  "BND4_create_header_structs env self =
     (let big = big_endian self;
          hs = add_fields (BinaryStruct BND4_HEADER_STRUCT_START False) BND4_HEADER_STRUCT_ENDIAN big
      in self\<lparr>most_recent_hash_table := [],
              most_recent_entry_count := length (entries self),
              most_recent_paths := map entry_path (entries self),
              header_struct := Some hs,
              entry_header_struct := Some (BND4_entry_header_struct env (magic self) big)\<rparr>)"

text \<open>\<^verbatim>\<open>BND4.build_hash_table\<close>: the loop that fills \<^verbatim>\<open>hash_lists\<close> (the list
  \<^verbatim>\<open>hashes\<close> is only read at its last element, the hash just computed), the sort of every
  list (tuples compare lexicographically), and the loops that flatten them.\<close>

fun build_hash_lists ::
  "nat \<Rightarrow> nat \<Rightarrow> bnd_entry list \<Rightarrow> (nat \<times> nat) list list \<Rightarrow> error + (nat \<times> nat) list list" where
  "build_hash_lists group_count entry_index [] hash_lists = Inr hash_lists"
| "build_hash_lists group_count entry_index (e # es) hash_lists =
     (case entry_path e of
        None \<Rightarrow> Inl AttributeError
      | Some p \<Rightarrow>
          (let h = path_hash p;
               list_index = h mod group_count
           in build_hash_lists group_count (entry_index + 1) es
                (hash_lists[list_index := hash_lists ! list_index @ [(h, entry_index)]])))"

fun flatten_hash_list ::
  "pydict list \<times> nat \<Rightarrow> (nat \<times> nat) list \<Rightarrow> pydict list \<times> nat" where
  "flatten_hash_list (path_hashes, total_hash_count) [] = (path_hashes, total_hash_count)"
| "flatten_hash_list (path_hashes, total_hash_count) (ph # rest) =
     flatten_hash_list
       (path_hashes @ [[''hashed_value'' \<mapsto> PyInt (int (fst ph)),
                        ''entry_index'' \<mapsto> PyInt (int (snd ph))]],
        total_hash_count + 1) rest"

fun flatten_hash_lists ::
  "pydict list \<times> pydict list \<times> nat \<Rightarrow> (nat \<times> nat) list list \<Rightarrow> pydict list \<times> pydict list" where
  "flatten_hash_lists (hash_groups, path_hashes, total_hash_count) [] = (hash_groups, path_hashes)"
| "flatten_hash_lists (hash_groups, path_hashes, total_hash_count) (hash_list # rest) =
     (let first_hash_index = total_hash_count;
          (path_hashes', total') = flatten_hash_list (path_hashes, total_hash_count) hash_list
      in flatten_hash_lists
           (hash_groups @ [[''index'' \<mapsto> PyInt (int first_hash_index),
                            ''length'' \<mapsto> PyInt (int (total' - first_hash_index))]],
            path_hashes', total') rest)"

definition build_hash_table :: "env \<Rightarrow> 'a base_bnd_scheme \<Rightarrow> error + bytes" where
  "build_hash_table env self =
     bind_err (find_group_count (length (entries self))) (\<lambda>group_count.
     bind_err (build_hash_lists group_count 0 (entries self) (replicate group_count [])) (\<lambda>hash_lists.
     (let hash_lists = map sort hash_lists;
          (hash_groups, path_hashes) = flatten_hash_lists ([], [], 0) hash_lists
      in bind_err (pack_multiple env HASH_GROUP_STRUCT hash_groups) (\<lambda>packed_hash_groups.
         bind_err (struct_pack env HASH_TABLE_HEADER
                     [''path_hashes_offset'' \<mapsto>
                        PyInt (int (struct_size HASH_TABLE_HEADER + length packed_hash_groups)),
                      ''hash_group_count'' \<mapsto> PyInt (int group_count)]) (\<lambda>packed_hash_table_header.
         bind_err (pack_multiple env PATH_HASH_STRUCT path_hashes) (\<lambda>packed_path_hashes.
         Inr (packed_hash_table_header @ packed_hash_groups @ packed_path_hashes)))))))"

text \<open>\<^verbatim>\<open>BND4.pack\<close>: the decision to rebuild the hash table (reading
  \<^verbatim>\<open>self._most_recent_paths[i]\<close> past its end raises), the snapshot, the loop over the
  entries and the layout.\<close>

fun detect_path_change :: "bool \<Rightarrow> nat \<Rightarrow> bnd_entry list \<Rightarrow> pystr option list \<Rightarrow> error + bool" where
  "detect_path_change rebuild_hash_table i [] recent = Inr rebuild_hash_table"
| "detect_path_change rebuild_hash_table i (e # es) recent =
     (if \<not> rebuild_hash_table
      then (if i < length recent
            then detect_path_change (entry_path e \<noteq> recent ! i) (i + 1) es recent
            else Inl IndexError)
      else detect_path_change rebuild_hash_table (i + 1) es recent)"

definition needs_rebuild :: "bnd4 \<Rightarrow> error + bool" where
  "needs_rebuild self =
     (let rebuild_hash_table = (most_recent_hash_table self = []);
          rebuild_hash_table =
            (if length (entries self) \<noteq> most_recent_entry_count self then True
             else rebuild_hash_table)
      in detect_path_change rebuild_hash_table 0 (entries self) (most_recent_paths self))"

definition BND4_pack_parts :: "env \<Rightarrow> bnd4 \<Rightarrow> (error + packed_parts) \<times> bnd4" where
  "BND4_pack_parts env self0 =
     (case needs_rebuild self0 of
        Inl e \<Rightarrow> (Inl e, self0)
      | Inr rebuild_hash_table \<Rightarrow>
     (let path_encoding = BND4_path_encoding (big_endian self0) (utf16_paths self0);
          self = self0\<lparr>most_recent_entry_count := length (entries self0),
                        most_recent_paths := map entry_path (entries self0)\<rparr>
      in (bind_err (pack_entries env (magic self) path_encoding 10 pack_state_init (entries self)) (\<lambda>st.
          (case header_struct self of None \<Rightarrow> Inl AttributeError | Some hs \<Rightarrow>
          (case entry_header_struct self of None \<Rightarrow> Inl AttributeError | Some ehs \<Rightarrow>
          (let entry_header_table_offset = struct_size hs;
               entry_path_table_offset =
                 entry_header_table_offset + struct_size ehs * length (entries self)
           in bind_err
                (if hash_table_type self = 4
                 then bind_err (if rebuild_hash_table then build_hash_table env self
                                else Inr (most_recent_hash_table self)) (\<lambda>table.
                        (let off = entry_path_table_offset + length (packed_entry_paths st)
                         in Inr (off, table, off + length table)))
                 else Inr (0, [], entry_path_table_offset + length (packed_entry_paths st)))
                (\<lambda>(hash_table_off, table, entry_packed_data_offset).
           bind_err (struct_pack env hs
                       [''flag1'' \<mapsto> PyBool (flag1 self),
                        ''flag2'' \<mapsto> PyBool (flag2 self),
                        ''big_endian'' \<mapsto> PyBool (big_endian self),
                        ''entry_count'' \<mapsto> PyInt (int (length (entries self))),
                        ''signature'' \<mapsto> PyStr (signature self),
                        ''entry_header_size'' \<mapsto> PyInt (int (struct_size ehs)),
                        ''data_offset'' \<mapsto> PyInt (int entry_packed_data_offset),
                        ''utf16_paths'' \<mapsto> PyBool (utf16_paths self),
                        ''magic'' \<mapsto> PyInt (magic self),
                        ''hash_table_type'' \<mapsto> PyInt (hash_table_type self),
                        ''hash_table_offset'' \<mapsto> PyInt (int hash_table_off)]) (\<lambda>hdr.
           bind_err (pack_entry_headers env (magic self) ehs (int entry_packed_data_offset)
                       (int entry_path_table_offset) (entry_header_dicts st)) (\<lambda>ehdrs.
           Inr \<lparr>packed_header = hdr, packed_entry_headers = ehdrs,
                  packed_paths = packed_entry_paths st, packed_hash_table = table,
                  packed_data = packed_entry_data st\<rparr>))))))), self)))"

definition BND4_pack :: "env \<Rightarrow> bnd4 \<Rightarrow> (error + bytes) \<times> bnd4" where
  "BND4_pack env self =
     (case BND4_pack_parts env self of
        (Inl e, self') \<Rightarrow> (Inl e, self')
      | (Inr p, self') \<Rightarrow> (Inr (join_parts p), self'))"

subsection \<open>An instance of the collaborators, for concrete inputs\<close>

text \<open>One set of rules, a codec for ASCII paths and a stand-in compressor that marks its output
  with a leading byte, to run the codec on concrete archives and buffers.\<close>

definition example_read_chars :: "bytes \<Rightarrow> int \<Rightarrow> error + pystr" where
  "example_read_chars buf offset =
     (if offset < 0 then Inl ValueError
      else (let rest = drop (nat offset) buf
            in if 0 \<in> set rest then Inr (map unat (takeWhile (\<lambda>b. b \<noteq> 0) rest))
               else Inl ValueError))"

definition example_env :: env where
  "example_env =
     \<lparr>has_id = (\<lambda>m. m div 2 mod 2 = 1),
      has_path = (\<lambda>m. m div 4 mod 2 = 1),
      has_uncompressed_size = (\<lambda>m. m div 32 mod 2 = 1),
      is_entry_compressed = (\<lambda>m. m div 128 mod 2 = 1),
      header_size = (\<lambda>m. 20 + (if m div 32 mod 2 = 1 then 8 else 0) + (if m div 2 mod 2 = 1 then 4 else 0)
                            + (if m div 4 mod 2 = 1 then 4 else 0) + (if m = 0x20 then 8 else 0)),
      is_big_endian = (\<lambda>m. m mod 2 = 1),
      zlib_compress = (\<lambda>bs. 120 # bs),
      zlib_decompress = (\<lambda>bs. case bs of [] \<Rightarrow> None | b # rest \<Rightarrow> if b = 120 then Some rest else None),
      str_encode = (\<lambda>enc s. if list_all (\<lambda>c. 0 < c \<and> c < 128) s then Some (map of_nat s) else None),
      str_decode = (\<lambda>enc bs. if list_all (\<lambda>b. b < 128) bs then Some (map unat bs) else None),
      read_chars_from_buffer = (\<lambda>enc. example_read_chars)\<rparr>"

definition ex_entry :: "int \<Rightarrow> string \<Rightarrow> bytes \<Rightarrow> bnd_entry" where
  "ex_entry i p d = \<lparr>entry_data = d, entry_id = Some i, entry_path = Some (str p), entry_magic = 0x40\<rparr>"

section \<open>Theorems\<close>

subsection \<open>Unfolding recursion on numerals\<close>

declare is_prime_loop.simps [simp del]
declare group_count_loop.simps [simp del]

lemma uint_to_bytes_le_numeral [simp]:
  "uint_to_bytes_le (numeral k) v =
     of_nat (v mod 256) # uint_to_bytes_le (pred_numeral k) (v div 256)"
  by (simp only: numeral_eq_Suc [of k] uint_to_bytes_le.simps)

lemma replicate_numeral_unfold [simp]:
  "replicate (numeral k) x = x # replicate (pred_numeral k) x"
  by (simp only: numeral_eq_Suc [of k] replicate.simps)

lemma unpack_count_numeral [simp]:
  "unpack_count s buf (numeral k) =
     bind_err (struct_unpack s buf) (\<lambda>(d, buf').
     bind_err (unpack_count s buf' (pred_numeral k)) (\<lambda>(ds, buf''). Inr (d # ds, buf'')))"
  by (simp only: numeral_eq_Suc [of k] unpack_count.simps)

subsection \<open>The path hash\<close>

lemma path_hash_loop_sum:
  "path_hash_loop h i s = h + (\<Sum>k<length s. (i + k) * 37 + s ! k)"
proof (induction s arbitrary: h i)
  case Nil
  then show ?case by simp
next
  case (Cons c s)
  have "(\<Sum>k<Suc (length s). (i + k) * 37 + (c # s) ! k)
        = (i * 37 + c) + (\<Sum>k<length s. (Suc i + k) * 37 + s ! k)"
    unfolding sum.lessThan_Suc_shift by (simp add: algebra_simps)
  with Cons show ?case by (simp add: algebra_simps)
qed

lemma hashable_normalized:
  "(let hashable = str_replace backslash slash p
    in if \<not> startswith hashable slash then slash # hashable else hashable) = normalized_path p"
  by (cases p) (auto simp: str_replace_def startswith_def normalized_path_def Let_def)

lemma path_hash_normalized: "path_hash p = path_hash_loop 0 0 (normalized_path p)"
  using hashable_normalized [of p] by (simp add: path_hash_def Let_def)

lemma normalized_prepend:
  "\<not> startswith p slash \<Longrightarrow> \<not> startswith p backslash \<Longrightarrow>
   normalized_path (slash # p) = normalized_path p"
  by (cases p) (auto simp: normalized_path_def startswith_def Let_def slash_def backslash_def)

text \<open>
  Claim C3, as amended.  For every path string \<open>p\<close>, \<open>path_hash p\<close> is the sum over the
  0-based positions \<open>i\<close> of the normalized string of \<open>i * 37 + ord (character i)\<close>; the
  hashes of \<^verbatim>\<open>/a/b\<close> and \<^verbatim>\<open>a\b\<close> are equal; and for every \<open>p\<close> that starts with neither a
  slash nor a backslash, \<open>path_hash p\<close> equals the hash of \<open>p\<close> with a slash prepended.
\<close>

theorem path_hash_sum:
  "path_hash p = (\<Sum>i<length (normalized_path p). i * 37 + normalized_path p ! i)
   \<and> path_hash [47, 97, 47, 98] = path_hash [97, 92, 98]
   \<and> (\<not> startswith p slash \<and> \<not> startswith p backslash \<longrightarrow> path_hash p = path_hash (slash # p))"
proof (intro conjI impI)
  show "path_hash p = (\<Sum>i<length (normalized_path p). i * 37 + normalized_path p ! i)"
    by (simp add: path_hash_normalized path_hash_loop_sum)
  show "path_hash [47, 97, 47, 98] = path_hash [97, 92, 98]"
    by (simp add: path_hash_def str_replace_def startswith_def slash_def backslash_def)
  show "path_hash p = path_hash (slash # p)"
    if "\<not> startswith p slash \<and> \<not> startswith p backslash"
    using that by (simp add: path_hash_normalized normalized_prepend)
qed

theorem path_hash_sum_witness:
  "\<not> startswith [97, 92, 98] slash \<and> \<not> startswith [97, 92, 98] backslash
   \<and> path_hash [97, 92, 98] = 511 \<and> path_hash (slash # [97, 92, 98]) = 511"
  using path_hash_sum [of "[97, 92, 98]", THEN conjunct2, THEN conjunct2]
  by (simp add: startswith_def slash_def backslash_def path_hash_def str_replace_def)

text \<open>
  Claim C3 as stated fails for a path that starts with a backslash: the backslash becomes
  the leading slash, so no slash is prepended to \<^verbatim>\<open>\a\<close>, while \<^verbatim>\<open>/\a\<close> is hashed as
  \<^verbatim>\<open>//a\<close>.
\<close>

theorem path_hash_prepend_counterexample:
  "\<not> startswith [92, 97] slash \<and> path_hash [92, 97] \<noteq> path_hash (slash # [92, 97])"
  by (simp add: path_hash_def str_replace_def startswith_def slash_def backslash_def)

subsection \<open>The group count of the hash table\<close>

lemma prime_number_by_sqrt:
  assumes "2 \<le> p" and small: "\<And>d. 2 \<le> d \<Longrightarrow> d * d \<le> p \<Longrightarrow> \<not> d dvd p"
  shows "prime_number p"
  unfolding prime_number_def
proof (intro conjI allI impI)
  show "2 \<le> p" by fact
next
  fix d assume "d dvd p"
  then obtain k where pk: "p = d * k" by (auto simp: dvd_def)
  show "d = 1 \<or> d = p"
  proof (rule ccontr)
    assume neg: "\<not> (d = 1 \<or> d = p)"
    have "d \<noteq> 0" using pk assms(1) by (cases "d = 0") auto
    moreover have "k \<noteq> 0" using pk assms(1) by (cases "k = 0") auto
    moreover have "d \<noteq> 1" "k \<noteq> 1" using neg pk by auto
    ultimately have d2: "2 \<le> d" and k2: "2 \<le> k" by arith+
    show False
    proof (cases "d \<le> k")
      case True
      then have "d * d \<le> p" using pk by simp
      with small [OF d2] \<open>d dvd p\<close> show False by blast
    next
      case False
      then have "k * k \<le> p" using pk by (simp add: mult.commute)
      moreover have "k dvd p" using pk by simp
      ultimately show False using small [OF k2] by blast
    qed
  qed
qed

lemma is_prime_loop_correct:
  "3 \<le> i \<Longrightarrow> odd i \<Longrightarrow> odd p \<Longrightarrow> 3 \<le> p \<Longrightarrow>
   (\<forall>d. 2 \<le> d \<and> d < i \<longrightarrow> \<not> d dvd p) \<Longrightarrow>
   is_prime_loop i p = prime_number p"
proof (induction i p rule: is_prime_loop.induct)
  case (1 i p)
  note inv = \<open>\<forall>d. 2 \<le> d \<and> d < i \<longrightarrow> \<not> d dvd p\<close>
  show ?case
  proof (cases "i < p div 2")
    case False
    have "prime_number p"
    proof (rule prime_number_by_sqrt)
      show "2 \<le> p" using "1.prems" by simp
    next
      fix d assume d: "2 \<le> d" "d * d \<le> p"
      have "d < i"
      proof (rule ccontr)
        assume "\<not> d < i"
        then have "3 \<le> d" "i \<le> d" using "1.prems" by auto
        then have "3 * d \<le> d * d" by simp
        moreover have "p < 3 * d" using False \<open>i \<le> d\<close> \<open>3 \<le> d\<close> \<open>odd p\<close> by presburger
        ultimately show False using d by linarith
      qed
      with inv d show "\<not> d dvd p" by blast
    qed
    with False show ?thesis by (simp add: is_prime_loop.simps [of i p])
  next
    case True
    show ?thesis
    proof (cases "p mod i = 0")
      case div: True
      then have "i dvd p" by auto
      moreover have "i \<noteq> 1" "i \<noteq> p" using "1.prems" True by auto
      ultimately have "\<not> prime_number p" by (auto simp: prime_number_def)
      with True div show ?thesis by (simp add: is_prime_loop.simps [of i p])
    next
      case ndiv: False
      show ?thesis
      proof (cases "i ^ 2 > p")
        case big: True
        have "prime_number p"
        proof (rule prime_number_by_sqrt)
          show "2 \<le> p" using "1.prems" by simp
        next
          fix d assume d: "2 \<le> d" "d * d \<le> p"
          have "d < i"
          proof (rule ccontr)
            assume "\<not> d < i"
            then have "i * i \<le> d * d" by (simp add: mult_le_mono)
            with big d show False by (simp add: power2_eq_square)
          qed
          with inv d show "\<not> d dvd p" by blast
        qed
        with True ndiv big show ?thesis by (simp add: is_prime_loop.simps [of i p])
      next
        case small: False
        have inv': "\<forall>d. 2 \<le> d \<and> d < i + 2 \<longrightarrow> \<not> d dvd p"
        proof (intro allI impI)
          fix d assume d: "2 \<le> d \<and> d < i + 2"
          consider "d < i" | "d = i" | "d = i + 1" using d by linarith
          then show "\<not> d dvd p"
          proof cases
            case 1 with inv d show ?thesis by blast
          next
            case 2 with ndiv show ?thesis by auto
          next
            case 3
            then have "even d" using \<open>odd i\<close> by simp
            with \<open>odd p\<close> show ?thesis by (meson dvd_trans)
          qed
        qed
        have "is_prime_loop (i + 2) p = prime_number p"
          using "1.IH" [OF True ndiv small] "1.prems" inv' by simp
        with True ndiv small show ?thesis by (simp add: is_prime_loop.simps [of i p])
      qed
    qed
  qed
qed

lemma is_prime_correct: "is_prime p = prime_number p"
proof -
  consider "p < 2" | "p = 2" | "2 < p" "even p" | "2 < p" "odd p" by arith
  then show ?thesis
  proof cases
    case 1 then show ?thesis by (simp add: is_prime_def prime_number_def)
  next
    case 2
    have "prime_number 2"
      by (rule prime_number_by_sqrt) (auto dest: dvd_imp_le)
    with 2 show ?thesis by (simp add: is_prime_def)
  next
    case 3
    then have "\<not> prime_number p" by (auto simp: prime_number_def)
    with 3 show ?thesis by (simp add: is_prime_def)
  next
    case 4
    have "\<forall>d. 2 \<le> d \<and> d < 3 \<longrightarrow> \<not> d dvd p"
    proof (intro allI impI)
      fix d :: nat assume "2 \<le> d \<and> d < 3"
      then have "d = 2" by simp
      with 4 show "\<not> d dvd p" by simp
    qed
    with 4 have "is_prime_loop 3 p = prime_number p"
      by (intro is_prime_loop_correct) auto
    moreover have "p mod 2 \<noteq> 0" using 4 by presburger
    ultimately show ?thesis using 4 by (simp add: is_prime_def)
  qed
qed

lemma group_count_loop_least:
  "group_count_loop p = Inr g \<Longrightarrow>
   p \<le> g \<and> is_prime g \<and> (\<forall>q. p \<le> q \<and> q < g \<longrightarrow> \<not> is_prime q)"
proof (induction p rule: group_count_loop.induct)
  case (1 p)
  show ?case
  proof (cases "p < 100000 \<and> \<not> is_prime p")
    case True
    with "1.prems" have "group_count_loop (p + 1) = Inr g"
      by (simp add: group_count_loop.simps [of p])
    with "1.IH" True have IH: "p + 1 \<le> g \<and> is_prime g \<and> (\<forall>q. p + 1 \<le> q \<and> q < g \<longrightarrow> \<not> is_prime q)"
      by simp
    have "\<not> is_prime q" if "p \<le> q \<and> q < g" for q
      using that IH True by (cases "q = p") auto
    with IH show ?thesis by auto
  next
    case False
    with "1.prems" show ?thesis
      by (auto simp: group_count_loop.simps [of p] split: if_splits)
  qed
qed

lemma group_count_loop_finds:
  "p \<le> q \<Longrightarrow> q < 100000 \<Longrightarrow> is_prime q \<Longrightarrow> \<exists>g. group_count_loop p = Inr g"
proof (induction p rule: group_count_loop.induct)
  case (1 p)
  show ?case
  proof (cases "is_prime p")
    case True
    with "1.prems" show ?thesis by (simp add: group_count_loop.simps [of p])
  next
    case False
    with "1.prems" have "p + 1 \<le> q" by (cases "p = q") auto
    with "1.IH" False "1.prems" have "\<exists>g. group_count_loop (p + 1) = Inr g" by simp
    with False "1.prems" show ?thesis by (simp add: group_count_loop.simps [of p])
  qed
qed

lemma is_prime_99991: "is_prime 99991"
  by (simp add: is_prime_def is_prime_loop.simps)

lemma group_count_small: "group_count_loop 0 = Inr 2"
  by (simp add: group_count_loop.simps is_prime_def is_prime_loop.simps)

text \<open>
  Claim C2.  Whenever \<^verbatim>\<open>build_hash_table\<close> chooses a group count for \<open>n\<close> entries, it is
  the smallest prime at or above \<open>n div 7\<close> (the quotient the search starts from); the search
  finds one for every \<open>n\<close> below 699944 (99991 is the last prime below the bound 100000 of the
  search, which raises beyond it); and for \<open>n < 7\<close> the group count is 2.
\<close>

theorem group_count_smallest_prime:
  "(find_group_count n = Inr g \<longrightarrow>
      prime_number g \<and> n div 7 \<le> g \<and> (\<forall>q. prime_number q \<and> n div 7 \<le> q \<longrightarrow> g \<le> q))
   \<and> (n < 699944 \<longrightarrow> (\<exists>g. find_group_count n = Inr g))
   \<and> (n < 7 \<longrightarrow> find_group_count n = Inr 2)"
proof (intro conjI impI)
  assume "find_group_count n = Inr g"
  then have L: "n div 7 \<le> g \<and> is_prime g \<and> (\<forall>q. n div 7 \<le> q \<and> q < g \<longrightarrow> \<not> is_prime q)"
    unfolding find_group_count_def by (rule group_count_loop_least)
  then show "prime_number g" by (simp add: is_prime_correct)
  from L show "n div 7 \<le> g" by simp
  from L show "\<forall>q. prime_number q \<and> n div 7 \<le> q \<longrightarrow> g \<le> q"
    by (metis is_prime_correct not_le_imp_less)
next
  assume "n < 699944"
  then have "n div 7 \<le> 99991" by simp
  then show "\<exists>g. find_group_count n = Inr g"
    unfolding find_group_count_def
    by (rule group_count_loop_finds) (simp_all add: is_prime_99991)
next
  assume "n < 7"
  then show "find_group_count n = Inr 2"
    by (simp add: find_group_count_def group_count_small)
qed

theorem group_count_smallest_prime_witness:
  "find_group_count 50 = Inr 7 \<and> prime_number 7 \<and> 50 div 7 \<le> (7::nat)
   \<and> (3::nat) < 7 \<and> find_group_count 3 = Inr 2"
proof -
  have e: "find_group_count 50 = Inr 7"
    by (simp add: find_group_count_def group_count_loop.simps is_prime_def is_prime_loop.simps)
  from group_count_smallest_prime [of 50 7] e have "prime_number 7" by blast
  moreover from group_count_smallest_prime [of 3 0] have "find_group_count 3 = Inr 2" by simp
  ultimately show ?thesis using e by simp
qed

subsection \<open>add\_entry\<close>

text \<open>\<^verbatim>\<open>entries_by_id\<close> returns a dictionary exactly when the IDs of the entries are pairwise
  distinct, and raises \<^verbatim>\<open>BNDError\<close> otherwise; its keys are then the IDs of the entries.\<close>

lemma entries_by_id_loop_char:
  "entries_by_id_loop d es =
     (if distinct (map entry_id es) \<and> (\<forall>e \<in> set es. d (entry_id e) = None)
      then Inr (fold (\<lambda>e m. m(entry_id e \<mapsto> e)) es d)
      else Inl BNDError)"
proof (induction es arbitrary: d)
  case Nil
  then show ?case by simp
next
  case (Cons e es)
  let ?d = "d(entry_id e \<mapsto> e)"
  have a: "(\<forall>x \<in> set es. ?d (entry_id x) = None)
          = (entry_id e \<notin> entry_id ` set es \<and> (\<forall>x \<in> set es. d (entry_id x) = None))"
    by (force simp: image_iff)
  show ?case
  proof (cases "d (entry_id e) = None")
    case True
    have "entries_by_id_loop d (e # es) = entries_by_id_loop ?d es"
      using True by simp
    also have "\<dots> = (if distinct (map entry_id es) \<and> (\<forall>x \<in> set es. ?d (entry_id x) = None)
                        then Inr (fold (\<lambda>e m. m(entry_id e \<mapsto> e)) es ?d) else Inl BNDError)"
      by (rule Cons.IH)
    also have "\<dots> = (if distinct (map entry_id (e # es)) \<and> (\<forall>x \<in> set (e # es). d (entry_id x) = None)
                        then Inr (fold (\<lambda>e m. m(entry_id e \<mapsto> e)) (e # es) d) else Inl BNDError)"
      unfolding a using True by (simp del: fun_upd_apply)
    finally show ?thesis .
  next
    case False
    then show ?thesis by auto
  qed
qed

lemma fold_update_dom:
  "(fold (\<lambda>e m. m(entry_id e \<mapsto> e)) es d k \<noteq> None) = (d k \<noteq> None \<or> k \<in> entry_id ` set es)"
  by (induction es arbitrary: d) auto

lemma add_entry_char:
  "add_entry e self =
     (if e \<in> set (entries self) \<or> \<not> distinct (map entry_id (entries self)) then (Inl BNDError, self)
      else (Inr (if entry_id e \<in> entry_id ` set (entries self) then [DuplicateIdWarning (entry_id e)] else []),
            self\<lparr>entries := entries self @ [e]\<rparr>))"
  using fold_update_dom [of "entries self" Map.empty "entry_id e"]
  by (simp add: add_entry_def entries_by_id_def entries_by_id_loop_char)

text \<open>
  Claim C6.  \<^verbatim>\<open>add_entry\<close> raises \<^verbatim>\<open>BNDError\<close> when the entry equals an entry of the
  archive on (id, path, magic, data), and also when two entries of the archive already
  share an ID: the test \<^verbatim>\<open>entry.id in self.entries_by_id\<close> builds the dictionary, which
  raises at the second entry of one ID.  In every other case it appends the entry, with a
  warning exactly when the entry's ID is the ID of an entry of the archive.  So the first
  entry that repeats an ID is accepted with a warning, and from then on \<^verbatim>\<open>add_entry\<close>
  raises for every entry, identical to an existing one or not.
\<close>

theorem add_entry_outcome:
  "add_entry e self =
     (if e \<in> set (entries self) \<or> \<not> distinct (map entry_id (entries self)) then (Inl BNDError, self)
      else (Inr (if entry_id e \<in> entry_id ` set (entries self) then [DuplicateIdWarning (entry_id e)] else []),
            self\<lparr>entries := entries self @ [e]\<rparr>))"
  by (rule add_entry_char)

text \<open>An empty archive takes the entry (0, a), takes (0, b) with a warning, and then refuses
  (1, c), which equals neither of them and repeats no ID.\<close>

theorem add_entry_outcome_witness:
  "add_entry (ex_entry 0 ''a'' [1]) new_bnd4 = (Inr [], new_bnd4\<lparr>entries := [ex_entry 0 ''a'' [1]]\<rparr>)
   \<and> add_entry (ex_entry 0 ''b'' [2]) (new_bnd4\<lparr>entries := [ex_entry 0 ''a'' [1]]\<rparr>)
     = (Inr [DuplicateIdWarning (Some 0)],
        new_bnd4\<lparr>entries := [ex_entry 0 ''a'' [1], ex_entry 0 ''b'' [2]]\<rparr>)
   \<and> ex_entry 1 ''c'' [3] \<notin> set [ex_entry 0 ''a'' [1], ex_entry 0 ''b'' [2]]
   \<and> Some 1 \<notin> entry_id ` set [ex_entry 0 ''a'' [1], ex_entry 0 ''b'' [2]]
   \<and> add_entry (ex_entry 1 ''c'' [3]) (new_bnd4\<lparr>entries := [ex_entry 0 ''a'' [1], ex_entry 0 ''b'' [2]]\<rparr>)
     = (Inl BNDError, new_bnd4\<lparr>entries := [ex_entry 0 ''a'' [1], ex_entry 0 ''b'' [2]]\<rparr>)"
  by (simp add: add_entry_outcome ex_entry_def new_bnd4_def new_base_bnd_def base_bnd.defs bnd4.defs
      str_def)

end
